theory Spec2Isabelle
  imports Main "HOL-Library.Word"
begin

section \<open>Time and durations\<close>

text \<open>
  Go's \<^verbatim>\<open>time.Duration\<close> is an \<^verbatim>\<open>int64\<close> count of nanoseconds: subtraction wraps
  around and comparison is signed. An instant (\<^verbatim>\<open>time.Time\<close>, \<^verbatim>\<open>metav1.Time\<close>) is
  modelled as an unbounded count of nanoseconds from a fixed epoch.
\<close>

type_synonym Duration = "64 word"

type_synonym Time = int

definition Second :: Duration where
  "Second = 1000000000"

definition Minute :: Duration where
  "Minute = 60 * Second"

definition scanTimeout :: Duration where
  "scanTimeout = 10 * Second"

definition defaultScanInterval :: Duration where
  "defaultScanInterval = 10 * Minute"

definition minDuration :: Duration where
  "minDuration = - (2 ^ 63)"

definition maxDuration :: Duration where
  "maxDuration = 2 ^ 63 - 1"

text \<open>
  \<^verbatim>\<open>func (t Time) Sub(u Time) Duration\<close> of the standard library: the duration
  \<open>t - u\<close>, or the minimum (maximum) duration when \<open>t - u\<close> does not fit.
\<close>

definition Sub :: "Time \<Rightarrow> Time \<Rightarrow> Duration" where
  "Sub t u =
     (let d = t - u
      in if d < - (2 ^ 63) then minDuration
         else if 2 ^ 63 - 1 < d then maxDuration
         else word_of_int d)"

section \<open>Errors\<close>

text \<open>
  A Go \<^verbatim>\<open>error\<close> is observed through its text (\<^verbatim>\<open>err.Error()\<close>) and through
  \<^verbatim>\<open>apierrors.IsNotFound\<close>.
\<close>

datatype error = Err (IsNotFound: bool) (Error: string)

definition Errorf :: "string \<Rightarrow> error" where
  "Errorf text = Err False text"

definition IgnoreNotFound :: "error \<Rightarrow> error option" where
  "IgnoreNotFound err = (if IsNotFound err then None else Some err)"

section \<open>The API types (api/v1alpha1/imagerepository_types.go)\<close>

record ObjectMeta =
  Name :: string
  Namespace :: string
  Generation :: "64 word"

type_synonym NamespacedName = "string \<times> string"

definition NamespacedName_String :: "NamespacedName \<Rightarrow> string" where
  "NamespacedName_String n = fst n @ ''/'' @ snd n"

record ImageRepositorySpec =
  Image :: string
  ScanInterval :: "Duration option"
  SecretRef :: "string option"
  Suspend :: bool

record ScanResult =
  TagCount :: int

datatype ConditionStatus = ConditionTrue | ConditionFalse | ConditionUnknown

record Condition =
  Type :: string
  CondStatus :: ConditionStatus
  LastTransitionTime :: Time
  Reason :: string
  Message :: string

record ImageRepositoryStatus =
  Conditions :: "Condition list"
  ObservedGeneration :: "64 word"
  CanonicalImageName :: string
  LastScanResult :: ScanResult

record ImageRepository =
  Meta :: ObjectMeta
  Spec :: ImageRepositorySpec
  Status :: ImageRepositoryStatus

definition key_of :: "ImageRepository \<Rightarrow> NamespacedName" where
  "key_of ir = (Namespace (Meta ir), Name (Meta ir))"

text \<open>
  Modelled from the spec: the condition type and the reasons are constants of
  \<^verbatim>\<open>condition_types.go\<close>, which is not among the source files; their values are the
  names the specification's state machine gives them.
\<close>

definition ReadyCondition :: string where
  "ReadyCondition = ''Ready''"

definition ReconciliationSucceededReason :: string where
  "ReconciliationSucceededReason = ''ReconciliationSucceeded''"

definition ReconciliationFailedReason :: string where
  "ReconciliationFailedReason = ''ReconciliationFailed''"

definition SuspendedReason :: string where
  "SuspendedReason = ''Suspended''"

definition ImageURLInvalidReason :: string where
  "ImageURLInvalidReason = ''InvalidImageReference''"

text \<open>
  \<^verbatim>\<open>SetImageRepositoryReadiness\<close>; its first argument is the instant that
  \<^verbatim>\<open>metav1.Now()\<close> returns inside it.
\<close>

definition SetImageRepositoryReadiness ::
  "Time \<Rightarrow> ImageRepository \<Rightarrow> ConditionStatus \<Rightarrow> string \<Rightarrow> string \<Rightarrow> ImageRepository" where
  "SetImageRepositoryReadiness tnow ir status reason message =
     ir\<lparr>Status := (Status ir)
       \<lparr>Conditions :=
          [\<lparr>Type = ReadyCondition, CondStatus = status, LastTransitionTime = tnow,
            Reason = reason, Message = message\<rparr>],
        ObservedGeneration := Generation (Meta ir)\<rparr>\<rparr>"

text \<open>The loop of \<^verbatim>\<open>GetLastTransitionTime\<close> over the conditions; \<open>None\<close> is \<^verbatim>\<open>nil\<close>.\<close>

fun firstReady :: "Condition list \<Rightarrow> Time option" where
  "firstReady [] = None"
| "firstReady (condition # rest) =
     (if Type condition = ReadyCondition then Some (LastTransitionTime condition)
      else firstReady rest)"

definition GetLastTransitionTime :: "ImageRepository \<Rightarrow> Time option" where
  "GetLastTransitionTime ir = firstReady (Conditions (Status ir))"

section \<open>External collaborators\<close>

text \<open>
  The libraries and services the controller calls are not part of the repository. The
  types below carry what the controller reads from them; a \<open>world\<close> gives the answers
  of the collaborators during one reconcile cycle.
\<close>

record Repository =
  RegistryStr :: string
  RepoString :: string

record Reference =
  Context :: Repository

record AuthConfig =
  Username :: string
  Password :: string
  Auth :: string
  IdentityToken :: string
  RegistryToken :: string

datatype Authenticator = FromConfig AuthConfig

fun Authorization :: "Authenticator \<Rightarrow> AuthConfig" where
  "Authorization (FromConfig cfg) = cfg"

text \<open>
  Modelled from the spec: \<open>credentials()\<close>, the capability the specification gives an
  authenticator, does not exist in the source; it reads the user name and the password
  of the configuration the authenticator wraps.
\<close>

definition credentials :: "Authenticator \<Rightarrow> string \<times> string" where
  "credentials a = (Username (Authorization a), Password (Authorization a))"

datatype remote_Option = WithAuth Authenticator

record Secret =
  SecretMeta :: ObjectMeta
  SecretType :: string
  Data :: "string \<rightharpoonup> string"

record dockerconfig =
  Auths :: "string \<rightharpoonup> AuthConfig"

datatype ctxt = Background | WithTimeout ctxt Duration

record world =
  time_Now :: Time
  metav1_Now :: Time
  Get_failure :: "ctxt \<Rightarrow> NamespacedName \<Rightarrow> error option"
  Get_Secret :: "ctxt \<Rightarrow> NamespacedName \<Rightarrow> error + Secret"
  Update_failure :: "ctxt \<Rightarrow> ImageRepository \<Rightarrow> error option"
  ParseReference :: "string \<Rightarrow> error + Reference"
  ListWithContext :: "ctxt \<Rightarrow> Repository \<Rightarrow> remote_Option list \<Rightarrow> error + string list"
  json_Decode :: "string \<Rightarrow> error + dockerconfig"
  fmt_q :: "string \<Rightarrow> string"

text \<open>
  The state the cycle reads and changes: the stored records, the tag database, and the
  calls made so far (with the outcome of a status update: \<open>None\<close> when it was
  accepted).
\<close>

datatype event =
    StatusUpdate ImageRepository "error option"
  | SetTagsCall string "string list"
  | ListCall Repository "remote_Option list"

record state =
  objects :: "ImageRepository list"
  database :: "string \<Rightarrow> string list"
  calls :: "event list"

text \<open>
  \<^verbatim>\<open>r.Get\<close> for an image repository: a failure of the API, or the stored record of
  that name, or a not-found error.
\<close>

definition client_Get ::
  "world \<Rightarrow> ctxt \<Rightarrow> NamespacedName \<Rightarrow> state \<Rightarrow> error + ImageRepository" where
  "client_Get w ctx key s =
     (case Get_failure w ctx key of
        Some err \<Rightarrow> Inl err
      | None \<Rightarrow>
          (case find (\<lambda>obj. key_of obj = key) (objects s) of
             None \<Rightarrow> Inl (Err True (NamespacedName_String key @ '' not found''))
           | Some obj \<Rightarrow> Inr obj))"

text \<open>
  \<^verbatim>\<open>r.Status().Update\<close>: the call is recorded with its outcome; when the API accepts
  it, the status of the stored record of that name is replaced by the status given.
\<close>

definition Status_Update ::
  "world \<Rightarrow> ctxt \<Rightarrow> ImageRepository \<Rightarrow> state \<Rightarrow> error option \<times> state" where
  "Status_Update w ctx obj s =
     (let outcome = Update_failure w ctx obj;
          s1 = s\<lparr>calls := calls s @ [StatusUpdate obj outcome]\<rparr>
      in case outcome of
           Some err \<Rightarrow> (Some err, s1)
         | None \<Rightarrow>
             (None, s1\<lparr>objects :=
                map (\<lambda>stored. if key_of stored = key_of obj
                       then stored\<lparr>Status := Status obj\<rparr> else stored)
                  (objects s1)\<rparr>))"

text \<open>
  Modelled from the spec: the tag database behind \<^verbatim>\<open>r.Database\<close> is an interface in
  the source; \<open>tags\<close> gives the stored sequence (empty if unknown) and \<open>setTags\<close>
  replaces it.
\<close>

definition Tags :: "state \<Rightarrow> string \<Rightarrow> string list" where
  "Tags s repo = database s repo"

definition SetTags :: "string \<Rightarrow> string list \<Rightarrow> state \<Rightarrow> state" where
  "SetTags repo tags s =
     s\<lparr>database := (database s)(repo := tags), calls := calls s @ [SetTagsCall repo tags]\<rparr>"

section \<open>The controller (controllers/imagerepository\_controller.go)\<close>

text \<open>The decimal text of a count, as \<^verbatim>\<open>%v\<close> prints it.\<close>

fun Itoa :: "nat \<Rightarrow> string" where
  "Itoa n =
     (if n < 10 then [''0123456789'' ! n]
      else Itoa (n div 10) @ [''0123456789'' ! (n mod 10)])"

declare Itoa.simps [simp del]

definition authFromSecret :: "world \<Rightarrow> Secret \<Rightarrow> string \<Rightarrow> error + Authenticator" where
  "authFromSecret w secret registry =
     (if SecretType secret = ''kubernetes.io/dockerconfigjson'' then
        (let configData = (case Data secret ''.dockerconfigjson'' of None \<Rightarrow> [] | Some b \<Rightarrow> b)
         in case json_Decode w configData of
              Inl err \<Rightarrow> Inl err
            | Inr dockerconfig \<Rightarrow>
                (case Auths dockerconfig registry of
                   None \<Rightarrow>
                     Inl (Errorf (''auth for '' @ fmt_q w registry @ '' not found in secret '' @
                       NamespacedName_String
                         (Namespace (SecretMeta secret), Name (SecretMeta secret))))
                 | Some auth \<Rightarrow> Inr (FromConfig auth)))
      else Inl (Errorf (''unknown secret type '' @ fmt_q w (SecretType secret))))"

text \<open>The first lines of \<^verbatim>\<open>shouldScan\<close>: the interval of the record, or the default.\<close>

definition scanIntervalOf :: "ImageRepository \<Rightarrow> Duration" where
  "scanIntervalOf repo =
     (case ScanInterval (Spec repo) of None \<Rightarrow> defaultScanInterval | Some d \<Rightarrow> d)"

definition shouldScan :: "state \<Rightarrow> ImageRepository \<Rightarrow> Time \<Rightarrow> bool \<times> Duration" where
  "shouldScan s repo now =
     (let scanInterval = scanIntervalOf repo
      in case GetLastTransitionTime repo of
           None \<Rightarrow> (True, scanInterval)
         | Some lastTransitionTime \<Rightarrow>
             if length (Tags s (CanonicalImageName (Status repo))) = 0 then (True, scanInterval)
             else
               (let when = scanInterval - Sub now lastTransitionTime
                in if when <s Second then (True, scanInterval) else (False, when)))"

text \<open>
  \<^verbatim>\<open>scan\<close> in three parts. First the options of the listing: none without a secret
  reference; otherwise the secret is fetched and turned into an authenticator, and
  either step may fail (\<open>Inl\<close> is the error of the early return).
\<close>

definition scan_options ::
  "world \<Rightarrow> ctxt \<Rightarrow> ImageRepository \<Rightarrow> Reference \<Rightarrow> error + remote_Option list" where
  "scan_options w ctx imageRepo ref =
     (case SecretRef (Spec imageRepo) of
        None \<Rightarrow> Inr []
      | Some secretName \<Rightarrow>
          (case Get_Secret w ctx (Namespace (Meta imageRepo), secretName) of
             Inl err \<Rightarrow> Inl err
           | Inr secret \<Rightarrow>
               (case authFromSecret w secret (RegistryStr (Context ref)) of
                  Inl err \<Rightarrow> Inl err
                | Inr auth \<Rightarrow> Inr [WithAuth auth])))"

text \<open>Then the listing and what follows it (from \<^verbatim>\<open>remote.ListWithContext\<close> on).\<close>

definition scan_list ::
  "world \<Rightarrow> ctxt \<Rightarrow> ImageRepository \<Rightarrow> Reference \<Rightarrow> remote_Option list \<Rightarrow> state \<Rightarrow>
     (ImageRepository \<times> error option) \<times> state" where
  "scan_list w ctx imageRepo ref options s =
     (let canonicalName = RepoString (Context ref);
          s1 = s\<lparr>calls := calls s @ [ListCall (Context ref) options]\<rparr>
      in case ListWithContext w ctx (Context ref) options of
           Inl err \<Rightarrow>
             ((SetImageRepositoryReadiness (metav1_Now w) imageRepo ConditionFalse
                 ReconciliationFailedReason (Error err), Some err), s1)
         | Inr tags \<Rightarrow>
             (let s2 = SetTags canonicalName tags s1;
                  imageRepo' = imageRepo\<lparr>Status := (Status imageRepo)
                    \<lparr>LastScanResult := \<lparr>TagCount = int (length tags)\<rparr>\<rparr>\<rparr>
              in ((SetImageRepositoryReadiness (metav1_Now w) imageRepo' ConditionTrue
                     ReconciliationSucceededReason
                     (''successful scan, found '' @ Itoa (length tags) @ '' tags''), None), s2)))"

definition scan ::
  "world \<Rightarrow> ctxt \<Rightarrow> ImageRepository \<Rightarrow> Reference \<Rightarrow> state \<Rightarrow>
     (ImageRepository \<times> error option) \<times> state" where
  "scan w ctx imageRepo ref s =
     (case scan_options w ctx imageRepo ref of
        Inl err \<Rightarrow>
          ((SetImageRepositoryReadiness (metav1_Now w) imageRepo ConditionFalse
              ReconciliationFailedReason (Error err), Some err), s)
      | Inr options \<Rightarrow> scan_list w ctx imageRepo ref options s)"

record Result =
  Requeue :: bool
  RequeueAfter :: Duration

text \<open>\<^verbatim>\<open>imageRepo.Status.CanonicalImageName = ref.Context().String()\<close>, on the copy in memory.\<close>

definition withCanonicalName :: "ImageRepository \<Rightarrow> Reference \<Rightarrow> ImageRepository" where
  "withCanonicalName imageRepo ref =
     imageRepo\<lparr>Status := (Status imageRepo)\<lparr>CanonicalImageName := RepoString (Context ref)\<rparr>\<rparr>"

definition Reconcile ::
  "world \<Rightarrow> NamespacedName \<Rightarrow> state \<Rightarrow> (Result \<times> error option) \<times> state" where
  "Reconcile w req s =
     (let ctx = Background
      in case client_Get w ctx req s of
           Inl err \<Rightarrow> ((\<lparr>Requeue = False, RequeueAfter = 0\<rparr>, IgnoreNotFound err), s)
         | Inr imageRepo \<Rightarrow>
             if Suspend (Spec imageRepo) then
               (let msg = ''ImageRepository is suspended, skipping reconciliation'';
                    status = SetImageRepositoryReadiness (metav1_Now w) imageRepo ConditionFalse
                      SuspendedReason msg
                in case Status_Update w ctx status s of
                     (Some err, s') \<Rightarrow> ((\<lparr>Requeue = True, RequeueAfter = 0\<rparr>, Some err), s')
                   | (None, s') \<Rightarrow> ((\<lparr>Requeue = False, RequeueAfter = 0\<rparr>, None), s'))
             else
               (case ParseReference w (Image (Spec imageRepo)) of
                  Inl err \<Rightarrow>
                    (let status = SetImageRepositoryReadiness (metav1_Now w) imageRepo
                           ConditionFalse ImageURLInvalidReason (Error err)
                     in case Status_Update w ctx status s of
                          (Some err', s') \<Rightarrow>
                            ((\<lparr>Requeue = True, RequeueAfter = 0\<rparr>, Some err'), s')
                        | (None, s') \<Rightarrow>
                            ((\<lparr>Requeue = True, RequeueAfter = 0\<rparr>, Some err), s'))
                | Inr ref \<Rightarrow>
                    (let imageRepo' = withCanonicalName imageRepo ref;
                         now = time_Now w;
                         (ok, when) = shouldScan s imageRepo' now
                     in if ok then
                          (let ctx' = WithTimeout ctx scanTimeout;
                               ((reconciledRepo, reconcileErr), s1) = scan w ctx' imageRepo' ref s
                           in case Status_Update w ctx' reconciledRepo s1 of
                                (Some err, s2) \<Rightarrow>
                                  ((\<lparr>Requeue = True, RequeueAfter = 0\<rparr>, Some err), s2)
                              | (None, s2) \<Rightarrow>
                                  (case reconcileErr of
                                     Some err \<Rightarrow>
                                       ((\<lparr>Requeue = True, RequeueAfter = 0\<rparr>, Some err), s2)
                                   | None \<Rightarrow>
                                       ((\<lparr>Requeue = False, RequeueAfter = when\<rparr>, None), s2)))
                        else ((\<lparr>Requeue = False, RequeueAfter = when\<rparr>, None), s))))"

section \<open>Observations of one cycle\<close>

text \<open>The calls a cycle adds to the log, and the number of status updates among them.\<close>

definition cycle_calls :: "world \<Rightarrow> NamespacedName \<Rightarrow> state \<Rightarrow> event list" where
  "cycle_calls w req s = drop (length (calls s)) (calls (snd (Reconcile w req s)))"

fun is_StatusUpdate :: "event \<Rightarrow> bool" where
  "is_StatusUpdate (StatusUpdate obj outcome) = True"
| "is_StatusUpdate (SetTagsCall repo tags) = False"
| "is_StatusUpdate (ListCall repo options) = False"

fun is_SetTagsCall :: "event \<Rightarrow> bool" where
  "is_SetTagsCall (StatusUpdate obj outcome) = False"
| "is_SetTagsCall (SetTagsCall repo tags) = True"
| "is_SetTagsCall (ListCall repo options) = False"

definition status_writes :: "world \<Rightarrow> NamespacedName \<Rightarrow> state \<Rightarrow> nat" where
  "status_writes w req s = length (filter is_StatusUpdate (cycle_calls w req s))"

text \<open>Reading a record back from the store, as the next \<^verbatim>\<open>r.Get\<close> would find it.\<close>

definition stored :: "state \<Rightarrow> NamespacedName \<Rightarrow> ImageRepository option" where
  "stored s key = find (\<lambda>obj. key_of obj = key) (objects s)"

text \<open>
  A record whose status carries exactly one condition, of type Ready and stamped
  \<open>tnow\<close>, and whose observed generation is its generation.
\<close>

definition ready_only :: "Time \<Rightarrow> ImageRepository \<Rightarrow> bool" where
  "ready_only tnow obj =
     ((case Conditions (Status obj) of
         [c] \<Rightarrow> Type c = ReadyCondition \<and> LastTransitionTime c = tnow
       | _ \<Rightarrow> False)
      \<and> ObservedGeneration (Status obj) = Generation (Meta obj))"

definition readiness_count :: "ImageRepository \<Rightarrow> nat" where
  "readiness_count obj =
     length (filter (\<lambda>c. Type c = ReadyCondition) (Conditions (Status obj)))"

section \<open>Example records\<close>

text \<open>
  A record that was suspended before it was ever scanned and has been resumed: its
  status carries the Ready condition of the suspension and no canonical name, while
  the tag database already holds tags of the same image. The world around it answers
  every call successfully, two seconds after that condition was written.
\<close>

definition ex_quote :: "string \<Rightarrow> string" where
  "ex_quote text = [CHR 0x22] @ text @ [CHR 0x22]"

definition ex_ref :: Reference where
  "ex_ref = \<lparr>Context = \<lparr>RegistryStr = ''index.docker.io'',
     RepoString = ''index.docker.io/library/alpine''\<rparr>\<rparr>"

definition ex_auth :: AuthConfig where
  "ex_auth = \<lparr>Username = ''fooser'', Password = ''foopass'', Auth = ''Zm9vc2VyOmZvb3Bhc3M='',
     IdentityToken = [], RegistryToken = []\<rparr>"

definition ex_dockerconfig :: dockerconfig where
  "ex_dockerconfig = \<lparr>Auths = [''https://index.docker.io/v1/'' \<mapsto> ex_auth]\<rparr>"

definition ex_payload :: string where
  "ex_payload =
     ''{'' @ ex_quote ''auths'' @ '':{'' @ ex_quote ''https://index.docker.io/v1/'' @ '':{'' @
     ex_quote ''username'' @ '':'' @ ex_quote ''fooser'' @ '','' @
     ex_quote ''password'' @ '':'' @ ex_quote ''foopass'' @ '','' @
     ex_quote ''auth'' @ '':'' @ ex_quote ''Zm9vc2VyOmZvb3Bhc3M='' @ ''}}}''"

definition ex_secret :: Secret where
  "ex_secret =
     \<lparr>SecretMeta = \<lparr>Name = ''regcred'', Namespace = ''default'', Generation = 1\<rparr>,
      SecretType = ''kubernetes.io/dockerconfigjson'',
      Data = [''.dockerconfigjson'' \<mapsto> ex_payload]\<rparr>"

definition ex_repo :: ImageRepository where
  "ex_repo =
     \<lparr>Meta = \<lparr>Name = ''alpine'', Namespace = ''default'', Generation = 2\<rparr>,
      Spec = \<lparr>Image = ''alpine'', ScanInterval = None, SecretRef = None, Suspend = False\<rparr>,
      Status = \<lparr>Conditions =
          [\<lparr>Type = ReadyCondition, CondStatus = ConditionFalse, LastTransitionTime = 0,
            Reason = SuspendedReason,
            Message = ''ImageRepository is suspended, skipping reconciliation''\<rparr>],
        ObservedGeneration = 1, CanonicalImageName = [],
        LastScanResult = \<lparr>TagCount = 0\<rparr>\<rparr>\<rparr>"

definition ex_world :: world where
  "ex_world =
     \<lparr>time_Now = 2000000000, metav1_Now = 2000000000,
      Get_failure = (\<lambda>ctx key. None),
      Get_Secret = (\<lambda>ctx key. if key = (''default'', ''regcred'') then Inr ex_secret
         else Inl (Err True ''secret not found'')),
      Update_failure = (\<lambda>ctx obj. None),
      ParseReference = (\<lambda>image. if image = ''alpine'' then Inr ex_ref
         else Inl (Errorf ''could not parse reference'')),
      ListWithContext = (\<lambda>ctx repo options. Inr [''v1'', ''v2'', ''latest'']),
      json_Decode = (\<lambda>payload. if payload = ex_payload then Inr ex_dockerconfig
         else Inl (Errorf ''EOF'')),
      fmt_q = ex_quote\<rparr>"

definition ex_state :: state where
  "ex_state =
     \<lparr>objects = [ex_repo],
      database = (\<lambda>repo. [])(''index.docker.io/library/alpine'' := [''latest'']),
      calls = []\<rparr>"

text \<open>
  Variations: the database without tags (so that a scan is due), the store without the
  record, an API that refuses every status update, a registry that does not answer
  before the deadline, the same with an API that refuses calls under a context with a
  deadline, and the unanswering registry met after the scan interval has passed.
\<close>

definition ex_empty_state :: state where
  "ex_empty_state = ex_state\<lparr>database := (\<lambda>repo. [])\<rparr>"

definition ex_deleted_state :: state where
  "ex_deleted_state = ex_state\<lparr>objects := []\<rparr>"

definition ex_conflict_world :: world where
  "ex_conflict_world =
     ex_world\<lparr>Update_failure := (\<lambda>ctx obj. Some (Errorf ''the object has been modified''))\<rparr>"

definition ex_timeout_world :: world where
  "ex_timeout_world =
     ex_world\<lparr>ListWithContext := (\<lambda>ctx repo options.
        Inl (Errorf ''Get https://index.docker.io/v2/: context deadline exceeded''))\<rparr>"

definition ex_expired_world :: world where
  "ex_expired_world =
     ex_timeout_world\<lparr>Update_failure := (\<lambda>ctx obj.
        case ctx of
          Background \<Rightarrow> None
        | WithTimeout parent d \<Rightarrow>
            Some (Errorf ''Put https://kubernetes.default.svc/: context deadline exceeded''))\<rparr>"

definition ex_late_world :: world where
  "ex_late_world = ex_timeout_world\<lparr>time_Now := 700000000000, metav1_Now := 710000000000\<rparr>"

lemmas ex_defs = ex_quote_def ex_ref_def ex_repo_def ex_world_def ex_state_def ex_auth_def
  ex_dockerconfig_def ex_payload_def ex_secret_def
lemmas model_defs = Reconcile_def client_Get_def Status_Update_def shouldScan_def scan_def scan_list_def
  scan_options_def authFromSecret_def SetTags_def Tags_def withCanonicalName_def
  SetImageRepositoryReadiness_def GetLastTransitionTime_def scanIntervalOf_def key_of_def
  IgnoreNotFound_def Errorf_def NamespacedName_String_def
lemmas const_defs = ReadyCondition_def SuspendedReason_def ReconciliationFailedReason_def
  ReconciliationSucceededReason_def ImageURLInvalidReason_def Second_def Minute_def
  defaultScanInterval_def scanTimeout_def minDuration_def maxDuration_def Sub_def


section \<open>The paths of a cycle\<close>

lemma Status_Update_fst: "fst (Status_Update w ctx obj s) = Update_failure w ctx obj"
  by (simp add: Status_Update_def Let_def split: option.splits)

lemma Status_Update_calls:
  "calls (snd (Status_Update w ctx obj s)) = calls s @ [StatusUpdate obj (Update_failure w ctx obj)]"
  by (simp add: Status_Update_def Let_def split: option.splits)

lemma Status_Update_database: "database (snd (Status_Update w ctx obj s)) = database s"
  by (simp add: Status_Update_def Let_def split: option.splits)

lemma Status_Update_objects:
  "objects (snd (Status_Update w ctx obj s)) =
     (case Update_failure w ctx obj of
        Some err \<Rightarrow> objects s
      | None \<Rightarrow> map (\<lambda>stored. if key_of stored = key_of obj
                       then stored\<lparr>Status := Status obj\<rparr> else stored) (objects s))"
  by (simp add: Status_Update_def Let_def split: option.splits)

lemma find_map_same:
  "find P xs = Some x \<Longrightarrow> (\<And>y. P (f y) = P y) \<Longrightarrow> find P (map f xs) = Some (f x)"
  by (induction xs) (auto split: if_splits)

lemma Status_Update_stored:
  assumes "stored s key = Some obj" and "Meta new = Meta obj" and "Spec new = Spec obj"
    and "Update_failure w ctx new = None"
  shows "stored (snd (Status_Update w ctx new s)) key = Some new"
proof -
  let ?f = "\<lambda>stored. if key_of stored = key_of new then stored\<lparr>Status := Status new\<rparr> else stored"
  have found: "find (\<lambda>obj. key_of obj = key) (objects s) = Some obj"
    using assms(1) by (simp add: stored_def)
  then have key: "key_of obj = key"
    by (auto simp: find_Some_iff)
  have "find (\<lambda>obj. key_of obj = key) (map ?f (objects s)) = Some (?f obj)"
    using found by (rule find_map_same) (simp add: key_of_def)
  moreover have "?f obj = new"
    using assms(2,3) by (simp add: key_of_def)
  ultimately show ?thesis
    using assms(4) by (simp add: stored_def Status_Update_objects)
qed

lemma scan_fail_options:
  "scan_options w ctx r ref = Inl err \<Longrightarrow>
   scan w ctx r ref s =
     ((SetImageRepositoryReadiness (metav1_Now w) r ConditionFalse ReconciliationFailedReason
         (Error err), Some err), s)"
  by (simp add: scan_def)

lemma scan_fail_list:
  "scan_options w ctx r ref = Inr options \<Longrightarrow>
   ListWithContext w ctx (Context ref) options = Inl err \<Longrightarrow>
   scan w ctx r ref s =
     ((SetImageRepositoryReadiness (metav1_Now w) r ConditionFalse ReconciliationFailedReason
         (Error err), Some err), s\<lparr>calls := calls s @ [ListCall (Context ref) options]\<rparr>)"
  by (simp add: scan_def scan_list_def)

lemma scan_ok:
  "scan_options w ctx r ref = Inr options \<Longrightarrow>
   ListWithContext w ctx (Context ref) options = Inr tags \<Longrightarrow>
   scan w ctx r ref s =
     ((SetImageRepositoryReadiness (metav1_Now w)
         (r\<lparr>Status := (Status r)\<lparr>LastScanResult := \<lparr>TagCount = int (length tags)\<rparr>\<rparr>\<rparr>)
         ConditionTrue ReconciliationSucceededReason
         (''successful scan, found '' @ Itoa (length tags) @ '' tags''), None),
      s\<lparr>database := (database s)(RepoString (Context ref) := tags),
        calls := calls s @
          [ListCall (Context ref) options, SetTagsCall (RepoString (Context ref)) tags]\<rparr>)"
  by (simp add: scan_def scan_list_def SetTags_def Let_def)

lemma Reconcile_fetch_failed:
  "client_Get w Background req s = Inl err \<Longrightarrow>
   Reconcile w req s = ((\<lparr>Requeue = False, RequeueAfter = 0\<rparr>, IgnoreNotFound err), s)"
  by (simp add: Reconcile_def)

lemma Reconcile_suspended:
  "client_Get w Background req s = Inr imageRepo \<Longrightarrow> Suspend (Spec imageRepo) \<Longrightarrow>
   Reconcile w req s =
     (let status = SetImageRepositoryReadiness (metav1_Now w) imageRepo ConditionFalse
            SuspendedReason ''ImageRepository is suspended, skipping reconciliation''
      in ((\<lparr>Requeue = (Update_failure w Background status \<noteq> None), RequeueAfter = 0\<rparr>,
           Update_failure w Background status),
          snd (Status_Update w Background status s)))"
  by (simp add: Reconcile_def Let_def Status_Update_def split: option.splits prod.splits)

lemma Reconcile_parse_failed:
  "client_Get w Background req s = Inr imageRepo \<Longrightarrow> \<not> Suspend (Spec imageRepo) \<Longrightarrow>
   ParseReference w (Image (Spec imageRepo)) = Inl err \<Longrightarrow>
   Reconcile w req s =
     (let status = SetImageRepositoryReadiness (metav1_Now w) imageRepo ConditionFalse
            ImageURLInvalidReason (Error err)
      in ((\<lparr>Requeue = True, RequeueAfter = 0\<rparr>,
           (case Update_failure w Background status of Some err' \<Rightarrow> Some err' | None \<Rightarrow> Some err)),
          snd (Status_Update w Background status s)))"
  by (simp add: Reconcile_def Let_def Status_Update_def split: option.splits prod.splits)

lemma Reconcile_skipped:
  "client_Get w Background req s = Inr imageRepo \<Longrightarrow> \<not> Suspend (Spec imageRepo) \<Longrightarrow>
   ParseReference w (Image (Spec imageRepo)) = Inr ref \<Longrightarrow>
   shouldScan s (withCanonicalName imageRepo ref) (time_Now w) = (False, when) \<Longrightarrow>
   Reconcile w req s = ((\<lparr>Requeue = False, RequeueAfter = when\<rparr>, None), s)"
  by (simp add: Reconcile_def Let_def)

lemma Reconcile_scanned:
  "client_Get w Background req s = Inr imageRepo \<Longrightarrow> \<not> Suspend (Spec imageRepo) \<Longrightarrow>
   ParseReference w (Image (Spec imageRepo)) = Inr ref \<Longrightarrow>
   shouldScan s (withCanonicalName imageRepo ref) (time_Now w) = (True, when) \<Longrightarrow>
   scan w (WithTimeout Background scanTimeout) (withCanonicalName imageRepo ref) ref s =
     ((reconciledRepo, reconcileErr), s1) \<Longrightarrow>
   Reconcile w req s =
     ((case Update_failure w (WithTimeout Background scanTimeout) reconciledRepo of
         Some err \<Rightarrow> (\<lparr>Requeue = True, RequeueAfter = 0\<rparr>, Some err)
       | None \<Rightarrow>
           (case reconcileErr of
              Some err \<Rightarrow> (\<lparr>Requeue = True, RequeueAfter = 0\<rparr>, Some err)
            | None \<Rightarrow> (\<lparr>Requeue = False, RequeueAfter = when\<rparr>, None))),
      snd (Status_Update w (WithTimeout Background scanTimeout) reconciledRepo s1))"
  by (simp add: Reconcile_def Let_def Status_Update_def split: option.splits prod.splits)

lemma shouldScan_due_interval:
  "shouldScan s repo now = (True, when) \<Longrightarrow> when = scanIntervalOf repo"
  by (auto simp: shouldScan_def Let_def split: option.splits if_splits)


lemma client_Get_stored:
  "client_Get w ctx req s = Inr imageRepo \<Longrightarrow> stored s req = Some imageRepo"
  by (simp add: client_Get_def stored_def split: option.splits)

lemma cycle_calls_same_state: "snd (Reconcile w req s) = s \<Longrightarrow> cycle_calls w req s = []"
  by (simp add: cycle_calls_def)

lemma reconciled_record:
  "SetImageRepositoryReadiness tnow
     ((withCanonicalName imageRepo ref)\<lparr>Status := (Status (withCanonicalName imageRepo ref))
        \<lparr>LastScanResult := result\<rparr>\<rparr>) status reason message =
   \<lparr>Meta = Meta imageRepo, Spec = Spec imageRepo,
    Status = \<lparr>Conditions =
        [\<lparr>Type = ReadyCondition, CondStatus = status, LastTransitionTime = tnow,
          Reason = reason, Message = message\<rparr>],
      ObservedGeneration = Generation (Meta imageRepo),
      CanonicalImageName = RepoString (Context ref),
      LastScanResult = result\<rparr>\<rparr>"
  by (cases imageRepo, cases "Status imageRepo")
    (simp add: SetImageRepositoryReadiness_def withCanonicalName_def)

lemma failed_record:
  "SetImageRepositoryReadiness tnow (withCanonicalName imageRepo ref) status reason message =
   \<lparr>Meta = Meta imageRepo, Spec = Spec imageRepo,
    Status = \<lparr>Conditions =
        [\<lparr>Type = ReadyCondition, CondStatus = status, LastTransitionTime = tnow,
          Reason = reason, Message = message\<rparr>],
      ObservedGeneration = Generation (Meta imageRepo),
      CanonicalImageName = RepoString (Context ref),
      LastScanResult = LastScanResult (Status imageRepo)\<rparr>\<rparr>"
  by (cases imageRepo, cases "Status imageRepo")
    (simp add: SetImageRepositoryReadiness_def withCanonicalName_def)

lemma scan_options_secret_failed:
  "SecretRef (Spec imageRepo) = Some secretName \<Longrightarrow>
   Get_Secret w ctx (Namespace (Meta imageRepo), secretName) = Inl err \<Longrightarrow>
   scan_options w ctx (withCanonicalName imageRepo ref) ref = Inl err"
  by (simp add: scan_options_def withCanonicalName_def)

lemma scan_options_auth_failed:
  "SecretRef (Spec imageRepo) = Some secretName \<Longrightarrow>
   Get_Secret w ctx (Namespace (Meta imageRepo), secretName) = Inr secret \<Longrightarrow>
   authFromSecret w secret (RegistryStr (Context ref)) = Inl err \<Longrightarrow>
   scan_options w ctx (withCanonicalName imageRepo ref) ref = Inl err"
  by (simp add: scan_options_def withCanonicalName_def)

lemma scan_failed:
  assumes "scan_options w ctx (withCanonicalName imageRepo ref) ref = Inl err
      \<or> (\<exists>options. scan_options w ctx (withCanonicalName imageRepo ref) ref = Inr options
            \<and> ListWithContext w ctx (Context ref) options = Inl err)"
  obtains s1 listing where
    "scan w ctx (withCanonicalName imageRepo ref) ref s =
       ((SetImageRepositoryReadiness (metav1_Now w) (withCanonicalName imageRepo ref)
           ConditionFalse ReconciliationFailedReason (Error err), Some err), s1)"
    and "database s1 = database s" and "objects s1 = objects s"
    and "calls s1 = calls s @ listing" and "filter is_StatusUpdate listing = []"
    and "filter is_SetTagsCall listing = []"
  using assms
proof (elim disjE exE conjE)
  assume "scan_options w ctx (withCanonicalName imageRepo ref) ref = Inl err"
  then have "scan w ctx (withCanonicalName imageRepo ref) ref s =
       ((SetImageRepositoryReadiness (metav1_Now w) (withCanonicalName imageRepo ref)
           ConditionFalse ReconciliationFailedReason (Error err), Some err), s)"
    by (rule scan_fail_options)
  then show thesis
    by (rule that [where listing = "[]"]) simp_all
next
  fix options
  assume "scan_options w ctx (withCanonicalName imageRepo ref) ref = Inr options"
    and "ListWithContext w ctx (Context ref) options = Inl err"
  then have "scan w ctx (withCanonicalName imageRepo ref) ref s =
       ((SetImageRepositoryReadiness (metav1_Now w) (withCanonicalName imageRepo ref)
           ConditionFalse ReconciliationFailedReason (Error err), Some err),
        s\<lparr>calls := calls s @ [ListCall (Context ref) options]\<rparr>)"
    by (rule scan_fail_list)
  then show thesis
    by (rule that [where listing = "[ListCall (Context ref) options]"]) simp_all
qed

text \<open>
  Every cycle takes exactly one of seven paths, told apart by what the collaborators
  answer.
\<close>

lemma cycle_cases:
  obtains
    (fetch_failed) err where "client_Get w Background req s = Inl err"
  | (suspended) imageRepo where "client_Get w Background req s = Inr imageRepo"
      and "Suspend (Spec imageRepo)"
  | (parse_failed) imageRepo err where "client_Get w Background req s = Inr imageRepo"
      and "\<not> Suspend (Spec imageRepo)"
      and "ParseReference w (Image (Spec imageRepo)) = Inl err"
  | (not_due) imageRepo ref "when" where "client_Get w Background req s = Inr imageRepo"
      and "\<not> Suspend (Spec imageRepo)"
      and "ParseReference w (Image (Spec imageRepo)) = Inr ref"
      and "shouldScan s (withCanonicalName imageRepo ref) (time_Now w) = (False, when)"
  | (options_failed) imageRepo ref "when" err where
      "client_Get w Background req s = Inr imageRepo"
      and "\<not> Suspend (Spec imageRepo)"
      and "ParseReference w (Image (Spec imageRepo)) = Inr ref"
      and "shouldScan s (withCanonicalName imageRepo ref) (time_Now w) = (True, when)"
      and "scan_options w (WithTimeout Background scanTimeout)
             (withCanonicalName imageRepo ref) ref = Inl err"
  | (list_failed) imageRepo ref "when" options err where
      "client_Get w Background req s = Inr imageRepo"
      and "\<not> Suspend (Spec imageRepo)"
      and "ParseReference w (Image (Spec imageRepo)) = Inr ref"
      and "shouldScan s (withCanonicalName imageRepo ref) (time_Now w) = (True, when)"
      and "scan_options w (WithTimeout Background scanTimeout)
             (withCanonicalName imageRepo ref) ref = Inr options"
      and "ListWithContext w (WithTimeout Background scanTimeout) (Context ref) options = Inl err"
  | (listed) imageRepo ref "when" options tags where
      "client_Get w Background req s = Inr imageRepo"
      and "\<not> Suspend (Spec imageRepo)"
      and "ParseReference w (Image (Spec imageRepo)) = Inr ref"
      and "shouldScan s (withCanonicalName imageRepo ref) (time_Now w) = (True, when)"
      and "scan_options w (WithTimeout Background scanTimeout)
             (withCanonicalName imageRepo ref) ref = Inr options"
      and "ListWithContext w (WithTimeout Background scanTimeout) (Context ref) options = Inr tags"
proof (cases "client_Get w Background req s")
  case (Inl err)
  then show ?thesis by (rule fetch_failed)
next
  case (Inr imageRepo)
  note fetched = this
  show ?thesis
  proof (cases "Suspend (Spec imageRepo)")
    case True
    with fetched show ?thesis by (rule suspended)
  next
    case False
    note active = this
    show ?thesis
    proof (cases "ParseReference w (Image (Spec imageRepo))")
      case (Inl err)
      with fetched active show ?thesis by (rule parse_failed)
    next
      case (Inr ref)
      note parsed = this
      obtain ok "when" where
        decided: "shouldScan s (withCanonicalName imageRepo ref) (time_Now w) = (ok, when)"
        by (cases "shouldScan s (withCanonicalName imageRepo ref) (time_Now w)")
      show ?thesis
      proof (cases ok)
        case False
        with fetched active parsed decided show ?thesis by (auto intro: not_due)
      next
        case True
        with decided have due:
          "shouldScan s (withCanonicalName imageRepo ref) (time_Now w) = (True, when)"
          by simp
        show ?thesis
        proof (cases "scan_options w (WithTimeout Background scanTimeout)
                 (withCanonicalName imageRepo ref) ref")
          case (Inl err)
          with fetched active parsed due show ?thesis by (rule options_failed)
        next
          case (Inr options)
          note resolved = this
          show ?thesis
          proof (cases "ListWithContext w (WithTimeout Background scanTimeout) (Context ref) options")
            case (Inl err)
            with fetched active parsed due resolved show ?thesis by (rule list_failed)
          next
            case (Inr tags)
            with fetched active parsed due resolved show ?thesis by (rule listed)
          qed
        qed
      qed
    qed
  qed
qed

text \<open>
  In terms of the store, a cycle either leaves the state as it is or ends with one
  status update of a record built by \<open>SetImageRepositoryReadiness\<close>.
\<close>

lemma cycle_shapes:
  obtains
    (quiet) "snd (Reconcile w req s) = s"
  | (written) imageRepo ir ctx st reason msg s1 pre where
      "client_Get w Background req s = Inr imageRepo"
      and "Meta ir = Meta imageRepo" and "Spec ir = Spec imageRepo"
      and "objects s1 = objects s" and "calls s1 = calls s @ pre"
      and "filter is_StatusUpdate pre = []"
      and "snd (Reconcile w req s) =
        snd (Status_Update w ctx
          (SetImageRepositoryReadiness (metav1_Now w) ir st reason msg) s1)"
proof (cases rule: cycle_cases [of w req s])
  case (fetch_failed err)
  then show ?thesis
    by (intro quiet) (simp add: Reconcile_fetch_failed)
next
  case (suspended imageRepo)
  show ?thesis
    by (rule written [of imageRepo imageRepo s "[]"])
      (simp_all add: suspended Reconcile_suspended Let_def)
next
  case (parse_failed imageRepo err)
  show ?thesis
    by (rule written [of imageRepo imageRepo s "[]"])
      (simp_all add: parse_failed Reconcile_parse_failed Let_def)
next
  case (not_due imageRepo ref "when")
  then show ?thesis
    by (intro quiet) (simp add: Reconcile_skipped)
next
  case (options_failed imageRepo ref "when" err)
  note scanned = scan_fail_options [OF options_failed(5), of s]
  show ?thesis
    by (rule written [of imageRepo "withCanonicalName imageRepo ref" s "[]"])
      (simp_all add: options_failed(1) Reconcile_scanned [OF options_failed(1-4) scanned]
        withCanonicalName_def)
next
  case (list_failed imageRepo ref "when" options err)
  note scanned = scan_fail_list [OF list_failed(5,6), of s]
  show ?thesis
    by (rule written [of imageRepo "withCanonicalName imageRepo ref"
          "s\<lparr>calls := calls s @ [ListCall (Context ref) options]\<rparr>"
          "[ListCall (Context ref) options]"])
      (simp_all add: list_failed(1) Reconcile_scanned [OF list_failed(1-4) scanned]
        withCanonicalName_def)
next
  case (listed imageRepo ref "when" options tags)
  note scanned = scan_ok [OF listed(5,6), of s]
  show ?thesis
    by (rule written [of imageRepo
          "(withCanonicalName imageRepo ref)\<lparr>Status := (Status (withCanonicalName imageRepo ref))
             \<lparr>LastScanResult := \<lparr>TagCount = int (length tags)\<rparr>\<rparr>\<rparr>"
          "s\<lparr>database := (database s)(RepoString (Context ref) := tags),
             calls := calls s @
               [ListCall (Context ref) options, SetTagsCall (RepoString (Context ref)) tags]\<rparr>"
          "[ListCall (Context ref) options, SetTagsCall (RepoString (Context ref)) tags]"])
      (simp_all add: listed(1) Reconcile_scanned [OF listed(1-4) scanned] withCanonicalName_def)
qed

lemma ready_only_SetImageRepositoryReadiness:
  "ready_only tnow (SetImageRepositoryReadiness tnow ir st reason msg)"
  by (simp add: ready_only_def SetImageRepositoryReadiness_def)

lemma readiness_count_SetImageRepositoryReadiness:
  "Status stored' = Status (SetImageRepositoryReadiness tnow ir st reason msg) \<Longrightarrow>
   readiness_count stored' = 1"
  by (simp add: readiness_count_def SetImageRepositoryReadiness_def)

text \<open>The example record in the example worlds.\<close>

lemma ex_fetched:
  "client_Get ex_world Background (''default'', ''alpine'') ex_state = Inr ex_repo"
  by (simp add: ex_world_def ex_state_def ex_repo_def client_Get_def key_of_def)

lemma ex_not_suspended: "\<not> Suspend (Spec ex_repo)"
  by (simp add: ex_repo_def)

lemma ex_parsed: "ParseReference ex_world (Image (Spec ex_repo)) = Inr ex_ref"
  by (simp add: ex_world_def ex_repo_def)

lemma ex_not_due:
  "shouldScan ex_state (withCanonicalName ex_repo ex_ref) (time_Now ex_world) =
     (False, 598000000000)"
  by (simp add: ex_world_def ex_state_def ex_repo_def ex_ref_def shouldScan_def
        scanIntervalOf_def GetLastTransitionTime_def withCanonicalName_def Tags_def const_defs
        word_sless_alt Let_def)

lemma ex_empty_fetched:
  "client_Get w' Background (''default'', ''alpine'') ex_empty_state = Inr ex_repo"
  if "Get_failure w' = Get_failure ex_world"
  using that
  by (simp add: ex_world_def ex_empty_state_def ex_state_def ex_repo_def client_Get_def key_of_def)

lemma ex_empty_due:
  "shouldScan ex_empty_state (withCanonicalName ex_repo ex_ref) 2000000000 =
     (True, 600000000000)"
  by (simp add: ex_empty_state_def ex_state_def ex_repo_def ex_ref_def shouldScan_def
        scanIntervalOf_def GetLastTransitionTime_def withCanonicalName_def Tags_def const_defs)

lemma ex_no_options:
  "scan_options w' ctx (withCanonicalName ex_repo ex_ref) ex_ref = Inr []"
  by (simp add: scan_options_def withCanonicalName_def ex_repo_def)

section \<open>The scheduler\<close>

lemma firstReady_None_iff:
  "firstReady cs = None \<longleftrightarrow> (\<forall>c \<in> set cs. Type c \<noteq> ReadyCondition)"
  by (induction cs) auto

text \<open>
  C3: when the record has no Ready condition (\<^verbatim>\<open>GetLastTransitionTime\<close> returns
  \<^verbatim>\<open>nil\<close>), or when the tag database holds no tag under the record's canonical name,
  \<open>shouldScan\<close> answers "scan now" and gives the scan interval (the record's, or the
  default) as the time of the next check, whatever the instant \<open>now\<close> is.
\<close>

theorem shouldScan_without_history_or_tags:
  assumes "GetLastTransitionTime repo = None
     \<or> length (Tags s (CanonicalImageName (Status repo))) = 0"
  shows "shouldScan s repo now =
       (True, case ScanInterval (Spec repo) of None \<Rightarrow> defaultScanInterval | Some d \<Rightarrow> d)
     \<and> (GetLastTransitionTime repo = None \<longleftrightarrow>
          (\<forall>c \<in> set (Conditions (Status repo)). Type c \<noteq> ReadyCondition))"
proof -
  have "shouldScan s repo now =
      (True, case ScanInterval (Spec repo) of None \<Rightarrow> defaultScanInterval | Some d \<Rightarrow> d)"
    using assms
    by (auto simp: shouldScan_def scanIntervalOf_def Let_def split: option.splits)
  moreover have "GetLastTransitionTime repo = None \<longleftrightarrow>
      (\<forall>c \<in> set (Conditions (Status repo)). Type c \<noteq> ReadyCondition)"
    by (simp add: GetLastTransitionTime_def firstReady_None_iff)
  ultimately show ?thesis
    by (rule conjI)
qed

theorem shouldScan_without_history_or_tags_witness:
  "shouldScan ex_state (ex_repo\<lparr>Status := (Status ex_repo)\<lparr>Conditions := []\<rparr>\<rparr>) 5 =
     (True, 600000000000)
   \<and> shouldScan ex_empty_state
       (ex_repo\<lparr>Spec := (Spec ex_repo)\<lparr>ScanInterval := Some 30000000000\<rparr>\<rparr>) 5 =
     (True, 30000000000)"
proof -
  have fresh: "GetLastTransitionTime (ex_repo\<lparr>Status := (Status ex_repo)\<lparr>Conditions := []\<rparr>\<rparr>) = None
      \<or> length (Tags ex_state (CanonicalImageName
            (Status (ex_repo\<lparr>Status := (Status ex_repo)\<lparr>Conditions := []\<rparr>\<rparr>)))) = 0"
    by (simp add: GetLastTransitionTime_def)
  have untagged: "GetLastTransitionTime
        (ex_repo\<lparr>Spec := (Spec ex_repo)\<lparr>ScanInterval := Some 30000000000\<rparr>\<rparr>) = None
      \<or> length (Tags ex_empty_state (CanonicalImageName
            (Status (ex_repo\<lparr>Spec := (Spec ex_repo)\<lparr>ScanInterval := Some 30000000000\<rparr>\<rparr>)))) = 0"
    by (simp add: Tags_def ex_empty_state_def)
  show ?thesis
    using shouldScan_without_history_or_tags [OF fresh, of 5]
      shouldScan_without_history_or_tags [OF untagged, of 5]
    by (simp add: ex_repo_def const_defs)
qed

lemma Sub_in_range:
  assumes "- (2 ^ 63) \<le> t - u" and "t - u < 2 ^ 63"
  shows "sint (Sub t u) = t - u"
proof -
  have "Sub t u = word_of_int (t - u)"
    using assms by (simp add: Sub_def Let_def)
  moreover have "sint (word_of_int (t - u) :: 64 word) = signed_take_bit 63 (t - u)"
    by (simp only: sint_sbintrunc') simp
  moreover have "signed_take_bit 63 (t - u) = t - u"
    using assms by (intro signed_take_bit_int_eq_self) simp_all
  ultimately show ?thesis by simp
qed

lemma sint_diff_in_range:
  fixes a b :: Duration
  shows "- (2 ^ 63) \<le> sint a - sint b \<Longrightarrow> sint a - sint b < 2 ^ 63 \<Longrightarrow>
    sint (a - b) = sint a - sint b"
  by (simp add: sint_word_ariths word_size signed_take_bit_int_eq_self)

text \<open>
  C4: for a record with a Ready condition and a non-empty stored tag list, with the
  interval defaulting to ten minutes: \<open>shouldScan\<close> computes
  \<open>remaining = scanInterval - (now - lastTransitionTime)\<close> and answers "scan now"
  with the interval when \<open>remaining\<close> is under one second, and otherwise "not now"
  with \<open>remaining\<close> itself. The arithmetic is that of \<^verbatim>\<open>time.Duration\<close>; where
  neither the elapsed time nor the difference leaves the 64-bit range, \<open>remaining\<close>
  is the exact integer difference.
\<close>

theorem shouldScan_by_remaining:
  assumes "GetLastTransitionTime repo = Some lastTime"
    and "length (Tags s (CanonicalImageName (Status repo))) \<noteq> 0"
  shows "shouldScan s repo now =
       (let scanInterval =
              (case ScanInterval (Spec repo) of None \<Rightarrow> 10 * (60 * 1000000000) | Some d \<Rightarrow> d);
            remaining = scanInterval - Sub now lastTime
        in if remaining <s 1000000000 then (True, scanInterval) else (False, remaining))
     \<and> (- (2 ^ 63) \<le> now - lastTime \<and> now - lastTime < 2 ^ 63
          \<and> - (2 ^ 63) \<le> sint (scanIntervalOf repo) - (now - lastTime)
          \<and> sint (scanIntervalOf repo) - (now - lastTime) < 2 ^ 63 \<longrightarrow>
        sint (scanIntervalOf repo - Sub now lastTime) = sint (scanIntervalOf repo) - (now - lastTime))"
proof -
  have "shouldScan s repo now =
       (let scanInterval =
              (case ScanInterval (Spec repo) of None \<Rightarrow> 10 * (60 * 1000000000) | Some d \<Rightarrow> d);
            remaining = scanInterval - Sub now lastTime
        in if remaining <s 1000000000 then (True, scanInterval) else (False, remaining))"
    using assms
    by (cases "ScanInterval (Spec repo)")
      (simp_all add: shouldScan_def scanIntervalOf_def Let_def defaultScanInterval_def Minute_def
          Second_def)
  moreover have "sint (scanIntervalOf repo - Sub now lastTime) = sint (scanIntervalOf repo) - (now - lastTime)"
    if "- (2 ^ 63) \<le> now - lastTime" "now - lastTime < 2 ^ 63"
       "- (2 ^ 63) \<le> sint (scanIntervalOf repo) - (now - lastTime)"
       "sint (scanIntervalOf repo) - (now - lastTime) < 2 ^ 63"
    using that by (simp add: sint_diff_in_range Sub_in_range)
  ultimately show ?thesis by blast
qed

theorem shouldScan_by_remaining_witness:
  "shouldScan ex_state (withCanonicalName ex_repo ex_ref) 2000000000 = (False, 598000000000)
   \<and> shouldScan ex_state (withCanonicalName ex_repo ex_ref) 599500000000 = (True, 600000000000)
   \<and> sint (scanIntervalOf (withCanonicalName ex_repo ex_ref) - Sub 2000000000 0) = 598000000000"
  using shouldScan_by_remaining [of "withCanonicalName ex_repo ex_ref" 0 ex_state 2000000000]
    shouldScan_by_remaining [of "withCanonicalName ex_repo ex_ref" 0 ex_state 599500000000]
  by (simp add: ex_defs Tags_def const_defs withCanonicalName_def GetLastTransitionTime_def
        scanIntervalOf_def word_sless_alt Let_def)

section \<open>Credentials\<close>

text \<open>
  C7: a secret of type \<^verbatim>\<open>kubernetes.io/dockerconfigjson\<close> whose payload decodes to a
  configuration mapping the host \<^verbatim>\<open>https://index.docker.io/v1/\<close> to the user
  \<open>fooser\<close> with password \<open>foopass\<close> resolves, for that host, to an authenticator
  whose credentials are exactly that pair.
\<close>

theorem authFromSecret_round_trip:
  assumes "SecretType secret = ''kubernetes.io/dockerconfigjson''"
    and "Data secret ''.dockerconfigjson'' = Some payload"
    and "json_Decode w payload = Inr cfg"
    and "Auths cfg ''https://index.docker.io/v1/'' = Some auth"
    and "Username auth = ''fooser''" and "Password auth = ''foopass''"
  shows "authFromSecret w secret ''https://index.docker.io/v1/'' = Inr (FromConfig auth)
     \<and> credentials (FromConfig auth) = (''fooser'', ''foopass'')"
  using assms by (simp add: authFromSecret_def credentials_def)

theorem authFromSecret_round_trip_witness:
  "authFromSecret ex_world ex_secret ''https://index.docker.io/v1/'' = Inr (FromConfig ex_auth)
   \<and> credentials (FromConfig ex_auth) = (''fooser'', ''foopass'')"
  using authFromSecret_round_trip
    [of ex_secret ex_payload ex_world ex_dockerconfig ex_auth]
  by (simp add: ex_defs)

text \<open>
  C8: a secret of any other type fails with the "unknown secret type" error naming the
  type; a secret of the supported type whose decoded mapping has no entry under exactly
  the registry host fails with the "not found" error naming the host and the secret's
  namespace and name.
\<close>

theorem authFromSecret_failures:
  "(SecretType secret \<noteq> ''kubernetes.io/dockerconfigjson'' \<longrightarrow>
      authFromSecret w secret registry =
        Inl (Errorf (''unknown secret type '' @ fmt_q w (SecretType secret))))
   \<and> (SecretType secret = ''kubernetes.io/dockerconfigjson''
        \<and> json_Decode w (case Data secret ''.dockerconfigjson'' of None \<Rightarrow> [] | Some b \<Rightarrow> b) =
            Inr cfg
        \<and> Auths cfg registry = None \<longrightarrow>
      authFromSecret w secret registry =
        Inl (Errorf (''auth for '' @ fmt_q w registry @ '' not found in secret '' @
          Namespace (SecretMeta secret) @ ''/'' @ Name (SecretMeta secret))))"
  by (simp add: authFromSecret_def NamespacedName_String_def)

theorem authFromSecret_failures_witness:
  "authFromSecret ex_world (ex_secret\<lparr>SecretType := ''Opaque''\<rparr>) ''index.docker.io'' =
     Inl (Err False (''unknown secret type '' @ [CHR 0x22] @ ''Opaque'' @ [CHR 0x22]))
   \<and> authFromSecret ex_world ex_secret ''index.docker.io'' =
     Inl (Err False (''auth for '' @ [CHR 0x22] @ ''index.docker.io'' @ [CHR 0x22] @
       '' not found in secret default/regcred''))"
  using authFromSecret_failures
      [of "ex_secret\<lparr>SecretType := ''Opaque''\<rparr>" ex_world "''index.docker.io''" ex_dockerconfig]
    authFromSecret_failures [of ex_secret ex_world "''index.docker.io''" ex_dockerconfig]
  by (simp add: ex_defs Errorf_def)


section \<open>The reconcile cycle\<close>

text \<open>
  C1 (as the code has it): in a cycle where the record is fetched, is not suspended,
  its image reference parses and the scheduler answers "not due", \<open>Reconcile\<close>
  returns the scheduler's delay as the requeue delay with no error and leaves the state
  as it was: no listing, no tag written, and no status update. The canonical name is set
  on the copy in memory only, so the stored record is the one that was fetched.
\<close>

theorem Reconcile_not_due:
  assumes "client_Get w Background req s = Inr imageRepo"
    and "\<not> Suspend (Spec imageRepo)"
    and "ParseReference w (Image (Spec imageRepo)) = Inr ref"
    and "shouldScan s (withCanonicalName imageRepo ref) (time_Now w) = (False, when)"
  shows "Reconcile w req s = ((\<lparr>Requeue = False, RequeueAfter = when\<rparr>, None), s)
     \<and> cycle_calls w req s = []
     \<and> stored (snd (Reconcile w req s)) req = Some imageRepo"
proof -
  have "Reconcile w req s = ((\<lparr>Requeue = False, RequeueAfter = when\<rparr>, None), s)"
    using assms by (rule Reconcile_skipped)
  then show ?thesis
    using assms(1) by (simp add: cycle_calls_same_state client_Get_stored)
qed

theorem Reconcile_not_due_witness:
  "Reconcile ex_world (''default'', ''alpine'') ex_state =
     ((\<lparr>Requeue = False, RequeueAfter = 598000000000\<rparr>, None), ex_state)
   \<and> cycle_calls ex_world (''default'', ''alpine'') ex_state = []
   \<and> stored (snd (Reconcile ex_world (''default'', ''alpine'') ex_state)) (''default'', ''alpine'') =
       Some ex_repo"
  using Reconcile_not_due [OF ex_fetched ex_not_suspended ex_parsed ex_not_due] .

text \<open>
  The claim as the specification states it fails: here the stored canonical name is
  empty, the cycle is not due, and after the cycle the stored record still has no
  canonical name, no status update having been made.
\<close>

theorem Reconcile_not_due_counterexample:
  "client_Get ex_world Background (''default'', ''alpine'') ex_state = Inr ex_repo
   \<and> \<not> Suspend (Spec ex_repo)
   \<and> ParseReference ex_world (Image (Spec ex_repo)) = Inr ex_ref
   \<and> shouldScan ex_state (withCanonicalName ex_repo ex_ref) (time_Now ex_world) =
       (False, 598000000000)
   \<and> CanonicalImageName (Status ex_repo) \<noteq> RepoString (Context ex_ref)
   \<and> fst (Reconcile ex_world (''default'', ''alpine'') ex_state) =
       (\<lparr>Requeue = False, RequeueAfter = 598000000000\<rparr>, None)
   \<and> stored (snd (Reconcile ex_world (''default'', ''alpine'') ex_state)) (''default'', ''alpine'') =
       Some ex_repo
   \<and> cycle_calls ex_world (''default'', ''alpine'') ex_state = []"
  by (simp add: ex_defs model_defs const_defs stored_def cycle_calls_def word_sless_alt Let_def)

text \<open>
  C2 (as the code has it): a cycle makes at most one status update. It makes exactly one
  when the record is fetched and is suspended, or its image reference does not parse,
  or the scan is due; it makes none when the scan is not due, and none when the fetch
  fails, in which case nothing changes and the error is returned unless it is a
  not-found error.
\<close>

theorem status_writes_per_cycle:
  "status_writes w req s =
     (case client_Get w Background req s of
        Inl err \<Rightarrow> 0
      | Inr imageRepo \<Rightarrow>
          if Suspend (Spec imageRepo) then 1
          else (case ParseReference w (Image (Spec imageRepo)) of
                  Inl err \<Rightarrow> 1
                | Inr ref \<Rightarrow>
                    if fst (shouldScan s (withCanonicalName imageRepo ref) (time_Now w))
                    then 1 else 0))
   \<and> (\<forall>err. client_Get w Background req s = Inl err \<longrightarrow>
         Reconcile w req s =
           ((\<lparr>Requeue = False, RequeueAfter = 0\<rparr>, if IsNotFound err then None else Some err),
            s))"
proof (cases rule: cycle_cases [of w req s])
  case (fetch_failed err)
  then show ?thesis
    by (simp add: status_writes_def cycle_calls_def Reconcile_fetch_failed IgnoreNotFound_def)
next
  case (suspended imageRepo)
  then show ?thesis
    by (simp add: status_writes_def cycle_calls_def Reconcile_suspended Let_def
          Status_Update_calls)
next
  case (parse_failed imageRepo err)
  then show ?thesis
    by (simp add: status_writes_def cycle_calls_def Reconcile_parse_failed Let_def
          Status_Update_calls)
next
  case (not_due imageRepo ref "when")
  then show ?thesis
    by (simp add: status_writes_def cycle_calls_def Reconcile_skipped)
next
  case (options_failed imageRepo ref "when" err)
  note scanned = scan_fail_options [OF options_failed(5), of s]
  show ?thesis
    using options_failed(1-4)
    by (simp add: status_writes_def cycle_calls_def Status_Update_calls
          Reconcile_scanned [OF options_failed(1-4) scanned])
next
  case (list_failed imageRepo ref "when" options err)
  note scanned = scan_fail_list [OF list_failed(5,6), of s]
  show ?thesis
    using list_failed(1-4)
    by (simp add: status_writes_def cycle_calls_def Status_Update_calls
          Reconcile_scanned [OF list_failed(1-4) scanned])
next
  case (listed imageRepo ref "when" options tags)
  note scanned = scan_ok [OF listed(5,6), of s]
  show ?thesis
    using listed(1-4)
    by (simp add: status_writes_def cycle_calls_def Status_Update_calls
          Reconcile_scanned [OF listed(1-4) scanned])
qed

theorem status_writes_per_cycle_witness:
  "status_writes ex_world (''default'', ''alpine'') ex_deleted_state = 0
   \<and> Reconcile ex_world (''default'', ''alpine'') ex_deleted_state =
       ((\<lparr>Requeue = False, RequeueAfter = 0\<rparr>, None), ex_deleted_state)
   \<and> status_writes ex_world (''default'', ''alpine'') ex_empty_state = 1"
proof -
  have missing: "client_Get ex_world Background (''default'', ''alpine'') ex_deleted_state =
      Inl (Err True ''default/alpine not found'')"
    by (simp add: client_Get_def ex_world_def ex_deleted_state_def ex_state_def
          NamespacedName_String_def)
  have fetched: "client_Get ex_world Background (''default'', ''alpine'') ex_empty_state =
      Inr ex_repo"
    by (rule ex_empty_fetched) simp
  have due: "shouldScan ex_empty_state (withCanonicalName ex_repo ex_ref) (time_Now ex_world) =
      (True, 600000000000)"
    using ex_empty_due by (simp add: ex_world_def)
  show ?thesis
    using status_writes_per_cycle [of ex_world "(''default'', ''alpine'')" ex_deleted_state]
      status_writes_per_cycle [of ex_world "(''default'', ''alpine'')" ex_empty_state]
    by (simp add: missing fetched ex_not_suspended ex_parsed due)
qed

text \<open>
  The claim as stated fails on a cycle that is not due: the record is found and the
  cycle ends normally without any status update.
\<close>

theorem status_writes_per_cycle_counterexample:
  "client_Get ex_world Background (''default'', ''alpine'') ex_state = Inr ex_repo
   \<and> fst (Reconcile ex_world (''default'', ''alpine'') ex_state) =
       (\<lparr>Requeue = False, RequeueAfter = 598000000000\<rparr>, None)
   \<and> status_writes ex_world (''default'', ''alpine'') ex_state = 0"
  by (simp add: ex_defs model_defs const_defs status_writes_def cycle_calls_def word_sless_alt
        Let_def)

text \<open>
  C5 (as the code has it): in a due cycle whose listing succeeds with \<open>tags\<close>, the
  tag database receives \<open>tags\<close> under the canonical name, and one status update is
  attempted, of the record with the canonical name, the tag count \<open>length tags\<close> and
  the single condition Ready = True with reason ReconciliationSucceeded and the message
  reporting the count. When the API accepts the update the stored record is that record
  and the cycle returns the scan interval as the requeue delay with no error; when the
  API refuses it the cycle returns the refusal with an immediate requeue and the stored
  records are as before.
\<close>

theorem Reconcile_listing_succeeds:
  assumes fetched: "client_Get w Background req s = Inr imageRepo"
    and active: "\<not> Suspend (Spec imageRepo)"
    and parsed: "ParseReference w (Image (Spec imageRepo)) = Inr ref"
    and due: "shouldScan s (withCanonicalName imageRepo ref) (time_Now w) = (True, when)"
    and resolved: "scan_options w (WithTimeout Background scanTimeout)
        (withCanonicalName imageRepo ref) ref = Inr options"
    and listed: "ListWithContext w (WithTimeout Background scanTimeout) (Context ref) options =
        Inr tags"
  shows "let reconciled =
           \<lparr>Meta = Meta imageRepo, Spec = Spec imageRepo,
            Status = \<lparr>Conditions =
                [\<lparr>Type = ReadyCondition, CondStatus = ConditionTrue,
                  LastTransitionTime = metav1_Now w,
                  Reason = ReconciliationSucceededReason,
                  Message = ''successful scan, found '' @ Itoa (length tags) @ '' tags''\<rparr>],
              ObservedGeneration = Generation (Meta imageRepo),
              CanonicalImageName = RepoString (Context ref),
              LastScanResult = \<lparr>TagCount = int (length tags)\<rparr>\<rparr>\<rparr>;
         outcome = Update_failure w (WithTimeout Background scanTimeout) reconciled;
         result = fst (Reconcile w req s);
         s' = snd (Reconcile w req s)
     in database s' = (database s)(RepoString (Context ref) := tags)
        \<and> cycle_calls w req s =
            [ListCall (Context ref) options, SetTagsCall (RepoString (Context ref)) tags,
             StatusUpdate reconciled outcome]
        \<and> when = scanIntervalOf imageRepo
        \<and> (outcome = None \<longrightarrow>
             result = (\<lparr>Requeue = False, RequeueAfter = scanIntervalOf imageRepo\<rparr>, None)
             \<and> stored s' req = Some reconciled)
        \<and> (\<forall>err. outcome = Some err \<longrightarrow>
             result = (\<lparr>Requeue = True, RequeueAfter = 0\<rparr>, Some err)
             \<and> objects s' = objects s)"
proof -
  let ?ctx = "WithTimeout Background scanTimeout"
  define reconciled where "reconciled =
    \<lparr>Meta = Meta imageRepo, Spec = Spec imageRepo,
      Status = \<lparr>Conditions =
          [\<lparr>Type = ReadyCondition, CondStatus = ConditionTrue,
            LastTransitionTime = metav1_Now w,
            Reason = ReconciliationSucceededReason,
            Message = ''successful scan, found '' @ Itoa (length tags) @ '' tags''\<rparr>],
        ObservedGeneration = Generation (Meta imageRepo),
        CanonicalImageName = RepoString (Context ref),
        LastScanResult = \<lparr>TagCount = int (length tags)\<rparr>\<rparr>\<rparr>"
  define outcome where "outcome = Update_failure w ?ctx reconciled"
  let ?s1 = "s\<lparr>database := (database s)(RepoString (Context ref) := tags),
        calls := calls s @
          [ListCall (Context ref) options, SetTagsCall (RepoString (Context ref)) tags]\<rparr>"
  have same: "Meta reconciled = Meta imageRepo" "Spec reconciled = Spec imageRepo"
    by (simp_all add: reconciled_def)
  have scanned: "scan w ?ctx (withCanonicalName imageRepo ref) ref s = ((reconciled, None), ?s1)"
    using scan_ok [OF resolved listed, of s] by (simp only: reconciled_record reconciled_def)
  note cycle = Reconcile_scanned [OF fetched active parsed due scanned, folded outcome_def]
  have interval: "when = scanIntervalOf imageRepo"
    using shouldScan_due_interval [OF due] by (simp add: scanIntervalOf_def withCanonicalName_def)
  have db: "database (snd (Reconcile w req s)) = (database s)(RepoString (Context ref) := tags)"
    by (simp add: cycle Status_Update_database)
  have log: "cycle_calls w req s =
      [ListCall (Context ref) options, SetTagsCall (RepoString (Context ref)) tags,
       StatusUpdate reconciled outcome]"
    by (simp add: cycle_calls_def cycle Status_Update_calls outcome_def)
  have accepted: "fst (Reconcile w req s) =
        (\<lparr>Requeue = False, RequeueAfter = scanIntervalOf imageRepo\<rparr>, None)
      \<and> stored (snd (Reconcile w req s)) req = Some reconciled"
    if ok: "outcome = None"
  proof -
    have "stored ?s1 req = Some imageRepo"
      using client_Get_stored [OF fetched] by (simp add: stored_def)
    then have "stored (snd (Status_Update w ?ctx reconciled ?s1)) req = Some reconciled"
      using same ok [unfolded outcome_def] by (rule Status_Update_stored)
    then show ?thesis
      by (simp add: cycle ok interval)
  qed
  have refused: "fst (Reconcile w req s) = (\<lparr>Requeue = True, RequeueAfter = 0\<rparr>, Some err)
      \<and> objects (snd (Reconcile w req s)) = objects s"
    if "outcome = Some err" for err
    using that by (simp add: cycle Status_Update_objects outcome_def [symmetric])
  show ?thesis
    unfolding Let_def reconciled_def [symmetric] outcome_def [symmetric]
    using db log interval accepted refused by blast
qed

theorem Reconcile_listing_succeeds_witness:
  "fst (Reconcile ex_world (''default'', ''alpine'') ex_empty_state) =
     (\<lparr>Requeue = False, RequeueAfter = 600000000000\<rparr>, None)
   \<and> database (snd (Reconcile ex_world (''default'', ''alpine'') ex_empty_state))
       ''index.docker.io/library/alpine'' = [''v1'', ''v2'', ''latest'']
   \<and> stored (snd (Reconcile ex_world (''default'', ''alpine'') ex_empty_state))
       (''default'', ''alpine'') =
     Some \<lparr>Meta = \<lparr>Name = ''alpine'', Namespace = ''default'', Generation = 2\<rparr>,
       Spec = \<lparr>Image = ''alpine'', ScanInterval = None, SecretRef = None, Suspend = False\<rparr>,
       Status = \<lparr>Conditions =
           [\<lparr>Type = ''Ready'', CondStatus = ConditionTrue, LastTransitionTime = 2000000000,
             Reason = ''ReconciliationSucceeded'',
             Message = ''successful scan, found 3 tags''\<rparr>],
         ObservedGeneration = 2, CanonicalImageName = ''index.docker.io/library/alpine'',
         LastScanResult = \<lparr>TagCount = 3\<rparr>\<rparr>\<rparr>"
proof -
  have fetched: "client_Get ex_world Background (''default'', ''alpine'') ex_empty_state =
      Inr ex_repo"
    by (rule ex_empty_fetched) simp
  have due: "shouldScan ex_empty_state (withCanonicalName ex_repo ex_ref) (time_Now ex_world) =
      (True, 600000000000)"
    using ex_empty_due by (simp add: ex_world_def)
  have listed: "ListWithContext ex_world (WithTimeout Background scanTimeout) (Context ex_ref) [] =
      Inr [''v1'', ''v2'', ''latest'']"
    by (simp add: ex_world_def)
  show ?thesis
    using Reconcile_listing_succeeds [OF fetched ex_not_suspended ex_parsed due ex_no_options listed]
    by (simp add: Let_def ex_world_def ex_repo_def ex_ref_def scanIntervalOf_def const_defs
          Itoa.simps)
qed

text \<open>
  The claim as stated fails when the API refuses the status update: the listing
  succeeded, yet the cycle returns an error and the stored status is unchanged.
\<close>

theorem Reconcile_listing_succeeds_counterexample:
  "client_Get ex_conflict_world Background (''default'', ''alpine'') ex_empty_state = Inr ex_repo
   \<and> \<not> Suspend (Spec ex_repo)
   \<and> ParseReference ex_conflict_world (Image (Spec ex_repo)) = Inr ex_ref
   \<and> shouldScan ex_empty_state (withCanonicalName ex_repo ex_ref) (time_Now ex_conflict_world) =
       (True, 600000000000)
   \<and> ListWithContext ex_conflict_world (WithTimeout Background scanTimeout) (Context ex_ref) [] =
       Inr [''v1'', ''v2'', ''latest'']
   \<and> fst (Reconcile ex_conflict_world (''default'', ''alpine'') ex_empty_state) =
       (\<lparr>Requeue = True, RequeueAfter = 0\<rparr>, Some (Err False ''the object has been modified''))
   \<and> stored (snd (Reconcile ex_conflict_world (''default'', ''alpine'') ex_empty_state))
       (''default'', ''alpine'') = Some ex_repo"
  by (simp add: ex_conflict_world_def ex_empty_state_def ex_defs model_defs const_defs stored_def
        Let_def)

text \<open>
  The scan of a due cycle that fails with \<open>err\<close> (the secret cannot be fetched, or
  it does not resolve to credentials, or the listing fails) leaves the tag database
  unchanged and ends with one status update, of the record with the single condition
  Ready = False, reason ReconciliationFailed and the text of \<open>err\<close> as message. The
  update is made under the context of the scan, the one with the deadline. When the API
  accepts it the stored record is that record and the cycle returns \<open>err\<close>; when the
  API refuses it the cycle returns the refusal and the stored records are as before.
\<close>

lemma Reconcile_scan_failure:
  assumes fetched: "client_Get w Background req s = Inr imageRepo"
    and active: "\<not> Suspend (Spec imageRepo)"
    and parsed: "ParseReference w (Image (Spec imageRepo)) = Inr ref"
    and due: "shouldScan s (withCanonicalName imageRepo ref) (time_Now w) = (True, when)"
    and failure:
      "(\<exists>secretName. SecretRef (Spec imageRepo) = Some secretName
          \<and> Get_Secret w (WithTimeout Background scanTimeout)
               (Namespace (Meta imageRepo), secretName) = Inl err)
       \<or> (\<exists>secretName secret. SecretRef (Spec imageRepo) = Some secretName
          \<and> Get_Secret w (WithTimeout Background scanTimeout)
               (Namespace (Meta imageRepo), secretName) = Inr secret
          \<and> authFromSecret w secret (RegistryStr (Context ref)) = Inl err)
       \<or> (\<exists>options. scan_options w (WithTimeout Background scanTimeout)
               (withCanonicalName imageRepo ref) ref = Inr options
          \<and> ListWithContext w (WithTimeout Background scanTimeout) (Context ref) options =
               Inl err)"
  shows "let failed =
           \<lparr>Meta = Meta imageRepo, Spec = Spec imageRepo,
            Status = \<lparr>Conditions =
                [\<lparr>Type = ReadyCondition, CondStatus = ConditionFalse,
                  LastTransitionTime = metav1_Now w,
                  Reason = ReconciliationFailedReason, Message = Error err\<rparr>],
              ObservedGeneration = Generation (Meta imageRepo),
              CanonicalImageName = RepoString (Context ref),
              LastScanResult = LastScanResult (Status imageRepo)\<rparr>\<rparr>;
         outcome = Update_failure w (WithTimeout Background scanTimeout) failed;
         result = fst (Reconcile w req s);
         s' = snd (Reconcile w req s)
     in database s' = database s
        \<and> filter is_StatusUpdate (cycle_calls w req s) = [StatusUpdate failed outcome]
        \<and> (outcome = None \<longrightarrow>
             result = (\<lparr>Requeue = True, RequeueAfter = 0\<rparr>, Some err)
             \<and> stored s' req = Some failed)
        \<and> (\<forall>refusal. outcome = Some refusal \<longrightarrow>
             result = (\<lparr>Requeue = True, RequeueAfter = 0\<rparr>, Some refusal)
             \<and> objects s' = objects s)"
proof -
  let ?ctx = "WithTimeout Background scanTimeout"
  define failed where "failed =
    \<lparr>Meta = Meta imageRepo, Spec = Spec imageRepo,
      Status = \<lparr>Conditions =
          [\<lparr>Type = ReadyCondition, CondStatus = ConditionFalse,
            LastTransitionTime = metav1_Now w,
            Reason = ReconciliationFailedReason, Message = Error err\<rparr>],
        ObservedGeneration = Generation (Meta imageRepo),
        CanonicalImageName = RepoString (Context ref),
        LastScanResult = LastScanResult (Status imageRepo)\<rparr>\<rparr>"
  define outcome where "outcome = Update_failure w ?ctx failed"
  have same: "Meta failed = Meta imageRepo" "Spec failed = Spec imageRepo"
    by (simp_all add: failed_def)
  from failure have "scan_options w ?ctx (withCanonicalName imageRepo ref) ref = Inl err
      \<or> (\<exists>options. scan_options w ?ctx (withCanonicalName imageRepo ref) ref = Inr options
            \<and> ListWithContext w ?ctx (Context ref) options = Inl err)"
    by (auto dest: scan_options_secret_failed scan_options_auth_failed)
  then obtain s1 listing where
    scanned: "scan w ?ctx (withCanonicalName imageRepo ref) ref s = ((failed, Some err), s1)"
    and s1: "database s1 = database s" "objects s1 = objects s"
      "calls s1 = calls s @ listing" "filter is_StatusUpdate listing = []"
    by (rule scan_failed [where s = s]) (simp only: failed_record failed_def)
  note cycle = Reconcile_scanned [OF fetched active parsed due scanned, folded outcome_def]
  have db: "database (snd (Reconcile w req s)) = database s"
    by (simp add: cycle Status_Update_database s1)
  have log: "filter is_StatusUpdate (cycle_calls w req s) = [StatusUpdate failed outcome]"
    by (simp add: cycle_calls_def cycle Status_Update_calls outcome_def s1)
  have accepted: "fst (Reconcile w req s) = (\<lparr>Requeue = True, RequeueAfter = 0\<rparr>, Some err)
      \<and> stored (snd (Reconcile w req s)) req = Some failed"
    if ok: "outcome = None"
  proof -
    have "stored s1 req = Some imageRepo"
      using client_Get_stored [OF fetched] by (simp add: stored_def s1)
    then have "stored (snd (Status_Update w ?ctx failed s1)) req = Some failed"
      using same ok [unfolded outcome_def] by (rule Status_Update_stored)
    then show ?thesis
      by (simp add: cycle ok)
  qed
  have refused: "fst (Reconcile w req s) = (\<lparr>Requeue = True, RequeueAfter = 0\<rparr>, Some refusal)
      \<and> objects (snd (Reconcile w req s)) = objects s"
    if "outcome = Some refusal" for refusal
    using that by (simp add: cycle Status_Update_objects outcome_def [symmetric] s1)
  show ?thesis
    unfolding Let_def failed_def [symmetric] outcome_def [symmetric]
    using db log accepted refused by blast
qed

text \<open>
  C6: a failure in the scan of a due cycle is to be recorded in the status (Ready =
  False, reason ReconciliationFailed, the error's text as message) and to be returned to
  the caller. The code does not do so for a listing that runs into the deadline. In the
  run below the listing answers "context deadline exceeded" and \<open>scan\<close> builds the
  record with that condition; \<open>Reconcile\<close> then makes the status update under the
  same context, whose deadline has passed, and the API client, which still accepts an
  update under the background context (the one the suspended and the invalid-reference
  paths use), refuses it. The caller receives the refusal and not the listing's error,
  and the stored record keeps its old condition.
\<close>

theorem Reconcile_deadline_failure_not_recorded:
  "client_Get ex_expired_world Background (''default'', ''alpine'') ex_empty_state = Inr ex_repo
   \<and> \<not> Suspend (Spec ex_repo)
   \<and> ParseReference ex_expired_world (Image (Spec ex_repo)) = Inr ex_ref
   \<and> shouldScan ex_empty_state (withCanonicalName ex_repo ex_ref) (time_Now ex_expired_world) =
       (True, 600000000000)
   \<and> scan ex_expired_world (WithTimeout Background scanTimeout)
         (withCanonicalName ex_repo ex_ref) ex_ref ex_empty_state =
       ((\<lparr>Meta = \<lparr>Name = ''alpine'', Namespace = ''default'', Generation = 2\<rparr>,
          Spec = \<lparr>Image = ''alpine'', ScanInterval = None, SecretRef = None,
            Suspend = False\<rparr>,
          Status = \<lparr>Conditions =
              [\<lparr>Type = ''Ready'', CondStatus = ConditionFalse,
                LastTransitionTime = 2000000000, Reason = ''ReconciliationFailed'',
                Message = ''Get https://index.docker.io/v2/: context deadline exceeded''\<rparr>],
            ObservedGeneration = 2, CanonicalImageName = ''index.docker.io/library/alpine'',
            LastScanResult = \<lparr>TagCount = 0\<rparr>\<rparr>\<rparr>,
         Some (Err False ''Get https://index.docker.io/v2/: context deadline exceeded'')),
        ex_empty_state\<lparr>calls := [ListCall (Context ex_ref) []]\<rparr>)
   \<and> Update_failure ex_expired_world Background
         (fst (fst (scan ex_expired_world (WithTimeout Background scanTimeout)
            (withCanonicalName ex_repo ex_ref) ex_ref ex_empty_state))) = None
   \<and> filter is_StatusUpdate
         (cycle_calls ex_expired_world (''default'', ''alpine'') ex_empty_state) =
       [StatusUpdate
          (fst (fst (scan ex_expired_world (WithTimeout Background scanTimeout)
             (withCanonicalName ex_repo ex_ref) ex_ref ex_empty_state)))
          (Some (Err False ''Put https://kubernetes.default.svc/: context deadline exceeded''))]
   \<and> fst (Reconcile ex_expired_world (''default'', ''alpine'') ex_empty_state) =
       (\<lparr>Requeue = True, RequeueAfter = 0\<rparr>,
        Some (Err False ''Put https://kubernetes.default.svc/: context deadline exceeded''))
   \<and> stored (snd (Reconcile ex_expired_world (''default'', ''alpine'') ex_empty_state))
       (''default'', ''alpine'') = Some ex_repo
   \<and> map Reason (Conditions (Status ex_repo)) = [''Suspended'']"
  by (simp add: ex_expired_world_def ex_timeout_world_def ex_empty_state_def ex_defs model_defs
        const_defs stored_def cycle_calls_def Let_def)

text \<open>
  C9: every status update a cycle makes is of a record whose status carries exactly one
  condition, of type Ready and stamped with the instant \<^verbatim>\<open>metav1.Now()\<close> gave, and
  whose observed generation is its generation; when the update is accepted, that record
  is what the store holds for the request. If every stored record had at most one Ready
  condition before the cycle, so it is after it. \<open>SetImageRepositoryReadiness\<close>
  replaces the condition list, whatever it was, by the one new condition.
\<close>

theorem status_write_single_condition:
  "(\<forall>obj outcome. StatusUpdate obj outcome \<in> set (cycle_calls w req s) \<longrightarrow>
       ready_only (metav1_Now w) obj
       \<and> (outcome = None \<longrightarrow> stored (snd (Reconcile w req s)) req = Some obj))
   \<and> ((\<forall>obj \<in> set (objects s). readiness_count obj \<le> 1) \<longrightarrow>
       (\<forall>obj \<in> set (objects (snd (Reconcile w req s))). readiness_count obj \<le> 1))
   \<and> Conditions (Status (SetImageRepositoryReadiness tnow ir status reason message)) =
       [\<lparr>Type = ReadyCondition, CondStatus = status, LastTransitionTime = tnow,
         Reason = reason, Message = message\<rparr>]
   \<and> ObservedGeneration (Status (SetImageRepositoryReadiness tnow ir status reason message)) =
       Generation (Meta ir)"
proof -
  have cycle: "(\<forall>obj outcome. StatusUpdate obj outcome \<in> set (cycle_calls w req s) \<longrightarrow>
       ready_only (metav1_Now w) obj
       \<and> (outcome = None \<longrightarrow> stored (snd (Reconcile w req s)) req = Some obj))
   \<and> ((\<forall>obj \<in> set (objects s). readiness_count obj \<le> 1) \<longrightarrow>
       (\<forall>obj \<in> set (objects (snd (Reconcile w req s))). readiness_count obj \<le> 1))"
  proof (cases rule: cycle_shapes [of w req s])
    case quiet
    then show ?thesis
      by (simp add: cycle_calls_def)
  next
    case (written imageRepo ir' ctx st reason' msg s1 pre)
    let ?obj = "SetImageRepositoryReadiness (metav1_Now w) ir' st reason' msg"
    have same: "Meta ?obj = Meta imageRepo" "Spec ?obj = Spec imageRepo"
      using written(2,3) by (simp_all add: SetImageRepositoryReadiness_def)
    have log: "cycle_calls w req s = pre @ [StatusUpdate ?obj (Update_failure w ctx ?obj)]"
      by (simp add: cycle_calls_def written(7) Status_Update_calls written(5))
    have "StatusUpdate obj outcome \<notin> set pre" for obj outcome
      using written(6) by (auto simp: filter_empty_conv)
    then have only: "obj = ?obj \<and> outcome = Update_failure w ctx ?obj"
      if "StatusUpdate obj outcome \<in> set (cycle_calls w req s)" for obj outcome
      using that by (simp add: log)
    have "stored s1 req = Some imageRepo"
      using client_Get_stored [OF written(1)] by (simp add: stored_def written(4))
    then have kept: "stored (snd (Reconcile w req s)) req = Some ?obj"
      if "Update_failure w ctx ?obj = None"
      unfolding written(7) using same that by (rule Status_Update_stored)
    have inv: "readiness_count obj \<le> 1"
      if "\<forall>obj \<in> set (objects s). readiness_count obj \<le> 1"
        and "obj \<in> set (objects (snd (Reconcile w req s)))" for obj
      using that
      by (auto simp: written(7) Status_Update_objects written(4)
            readiness_count_SetImageRepositoryReadiness split: option.splits if_splits)
    have first: "ready_only (metav1_Now w) obj
        \<and> (outcome = None \<longrightarrow> stored (snd (Reconcile w req s)) req = Some obj)"
      if "StatusUpdate obj outcome \<in> set (cycle_calls w req s)" for obj outcome
      using only [OF that] kept by (simp add: ready_only_SetImageRepositoryReadiness)
    show ?thesis
      using first inv by blast
  qed
  then show ?thesis
    by (simp add: SetImageRepositoryReadiness_def)
qed

theorem status_write_single_condition_witness:
  "ready_only 2000000000
     \<lparr>Meta = \<lparr>Name = ''alpine'', Namespace = ''default'', Generation = 2\<rparr>,
       Spec = \<lparr>Image = ''alpine'', ScanInterval = None, SecretRef = None, Suspend = False\<rparr>,
       Status = \<lparr>Conditions =
           [\<lparr>Type = ''Ready'', CondStatus = ConditionTrue, LastTransitionTime = 2000000000,
             Reason = ''ReconciliationSucceeded'',
             Message = ''successful scan, found 3 tags''\<rparr>],
         ObservedGeneration = 2, CanonicalImageName = ''index.docker.io/library/alpine'',
         LastScanResult = \<lparr>TagCount = 3\<rparr>\<rparr>\<rparr>
   \<and> map (\<lambda>obj. length (Conditions (Status obj)))
       (objects (snd (Reconcile ex_world (''default'', ''alpine'') ex_empty_state))) = [1]
   \<and> list_all (\<lambda>obj. readiness_count obj \<le> 1)
       (objects (snd (Reconcile ex_world (''default'', ''alpine'') ex_empty_state)))"
proof -
  let ?obj = "\<lparr>Meta = \<lparr>Name = ''alpine'', Namespace = ''default'', Generation = 2\<rparr>,
       Spec = \<lparr>Image = ''alpine'', ScanInterval = None, SecretRef = None, Suspend = False\<rparr>,
       Status = \<lparr>Conditions =
           [\<lparr>Type = ''Ready'', CondStatus = ConditionTrue, LastTransitionTime = 2000000000,
             Reason = ''ReconciliationSucceeded'',
             Message = ''successful scan, found 3 tags''\<rparr>],
         ObservedGeneration = 2, CanonicalImageName = ''index.docker.io/library/alpine'',
         LastScanResult = \<lparr>TagCount = 3\<rparr>\<rparr>\<rparr>"
  have log: "StatusUpdate ?obj None \<in> set (cycle_calls ex_world (''default'', ''alpine'') ex_empty_state)"
    by (simp add: cycle_calls_def ex_empty_state_def ex_defs model_defs const_defs Let_def
          Itoa.simps)
  have before: "\<forall>obj \<in> set (objects ex_empty_state). readiness_count obj \<le> 1"
    by (simp add: ex_empty_state_def ex_state_def ex_repo_def readiness_count_def)
  have now: "metav1_Now ex_world = 2000000000"
    by (simp add: ex_world_def)
  have written: "objects (snd (Reconcile ex_world (''default'', ''alpine'') ex_empty_state)) = [?obj]"
    by (simp add: ex_empty_state_def ex_defs model_defs const_defs Let_def Itoa.simps)
  from status_write_single_condition [of ex_world "(''default'', ''alpine'')" ex_empty_state]
  have "ready_only (metav1_Now ex_world) ?obj"
    and "\<forall>obj \<in> set (objects (snd (Reconcile ex_world (''default'', ''alpine'') ex_empty_state))).
      readiness_count obj \<le> 1"
    using log before by blast+
  then show ?thesis
    by (simp add: now written)
qed

text \<open>
  C10: a cycle that does not reach a successful listing (the record is not fetched, or
  is suspended, or its reference does not parse, or the scan is not due, or the
  credentials or the listing fail) leaves the tag database unchanged and makes no
  \<open>SetTags\<close> call.
\<close>

theorem tags_unchanged_without_listing:
  assumes "\<not> (\<exists>imageRepo ref options tags.
      client_Get w Background req s = Inr imageRepo
      \<and> \<not> Suspend (Spec imageRepo)
      \<and> ParseReference w (Image (Spec imageRepo)) = Inr ref
      \<and> fst (shouldScan s (withCanonicalName imageRepo ref) (time_Now w))
      \<and> scan_options w (WithTimeout Background scanTimeout)
           (withCanonicalName imageRepo ref) ref = Inr options
      \<and> ListWithContext w (WithTimeout Background scanTimeout) (Context ref) options =
           Inr tags)"
  shows "database (snd (Reconcile w req s)) = database s
     \<and> filter is_SetTagsCall (cycle_calls w req s) = []"
proof (cases rule: cycle_cases [of w req s])
  case (fetch_failed err)
  then show ?thesis
    by (simp add: cycle_calls_def Reconcile_fetch_failed)
next
  case (suspended imageRepo)
  then show ?thesis
    by (simp add: cycle_calls_def Reconcile_suspended Let_def Status_Update_calls
          Status_Update_database)
next
  case (parse_failed imageRepo err)
  then show ?thesis
    by (simp add: cycle_calls_def Reconcile_parse_failed Let_def Status_Update_calls
          Status_Update_database)
next
  case (not_due imageRepo ref "when")
  then show ?thesis
    by (simp add: cycle_calls_def Reconcile_skipped)
next
  case (options_failed imageRepo ref "when" err)
  note scanned = scan_fail_options [OF options_failed(5), of s]
  show ?thesis
    by (simp add: cycle_calls_def Status_Update_calls Status_Update_database
          Reconcile_scanned [OF options_failed(1-4) scanned])
next
  case (list_failed imageRepo ref "when" options err)
  note scanned = scan_fail_list [OF list_failed(5,6), of s]
  show ?thesis
    by (simp add: cycle_calls_def Status_Update_calls Status_Update_database
          Reconcile_scanned [OF list_failed(1-4) scanned])
next
  case (listed imageRepo ref "when" options tags)
  with assms show ?thesis
    by auto
qed

theorem tags_unchanged_without_listing_witness:
  "database (snd (Reconcile ex_late_world (''default'', ''alpine'') ex_state))
     ''index.docker.io/library/alpine'' = [''latest'']
   \<and> filter is_SetTagsCall (cycle_calls ex_late_world (''default'', ''alpine'') ex_state) = []
   \<and> fst (shouldScan ex_state (withCanonicalName ex_repo ex_ref) (time_Now ex_late_world))"
proof -
  have parsed: "ParseReference ex_late_world (Image (Spec ex_repo)) = Inr ex_ref"
    using ex_parsed by (simp add: ex_late_world_def ex_timeout_world_def)
  have fetched: "client_Get ex_late_world Background (''default'', ''alpine'') ex_state =
      Inr ex_repo"
    using ex_fetched
    by (simp add: client_Get_def ex_late_world_def ex_timeout_world_def)
  have failed: "ListWithContext ex_late_world (WithTimeout Background scanTimeout)
      (Context ex_ref) [] =
        Inl (Errorf ''Get https://index.docker.io/v2/: context deadline exceeded'')"
    by (simp add: ex_late_world_def ex_timeout_world_def)
  have due: "fst (shouldScan ex_state (withCanonicalName ex_repo ex_ref) (time_Now ex_late_world))"
    by (simp add: ex_late_world_def ex_timeout_world_def ex_world_def ex_state_def ex_repo_def
          ex_ref_def shouldScan_def scanIntervalOf_def GetLastTransitionTime_def
          withCanonicalName_def Tags_def const_defs word_sless_alt Let_def)
  have "\<not> (\<exists>imageRepo ref options tags.
      client_Get ex_late_world Background (''default'', ''alpine'') ex_state = Inr imageRepo
      \<and> \<not> Suspend (Spec imageRepo)
      \<and> ParseReference ex_late_world (Image (Spec imageRepo)) = Inr ref
      \<and> fst (shouldScan ex_state (withCanonicalName imageRepo ref) (time_Now ex_late_world))
      \<and> scan_options ex_late_world (WithTimeout Background scanTimeout)
           (withCanonicalName imageRepo ref) ref = Inr options
      \<and> ListWithContext ex_late_world (WithTimeout Background scanTimeout) (Context ref) options =
           Inr tags)"
    using fetched parsed failed ex_no_options [of ex_late_world "WithTimeout Background scanTimeout"]
    by auto
  from tags_unchanged_without_listing [OF this] due show ?thesis
    by (simp add: ex_state_def)
qed

end
